theory Spec2Isabelle
  imports Complex_Main
begin

section \<open>Labelled arrays\<close>

text \<open>
  The programs of the repository work on xarray \<open>DataArray\<close>s.  A cell of an array is a
  floating-point number; it is modelled as a real number, or \<open>None\<close> for NaN (the value
  xarray writes where an entry is undefined).  Rounding and infinities are not part of
  the model.

  A \<open>DataArray\<close> is modelled with two named dimensions, as at the call site of
  \<open>prepare_data_for_eeof\<close> (dimensions \<open>time\<close> and \<open>lat\<close>): \<open>vals d ! i ! j\<close> is the cell at
  position \<open>i\<close> along \<open>dim0 d\<close> and \<open>j\<close> along \<open>dim1 d\<close>; \<open>coord0\<close> and \<open>coord1\<close> are the
  coordinate labels of the two dimensions.
\<close>

type_synonym cell = "real option"

datatype value_error =
    Embedding_lt_1
  | Tau_negative
  | Time_dim_not_found
  | Cannot_cut
  | Internal_error
  | Conflicting_sizes
  | Bad_date
  | Out_of_bounds_datetime

datatype error =
  ValueError value_error | KeyError | IndexError | OverflowError | ZeroDivisionError

record ('t, 'f) DataArray =
  dim0 :: string
  dim1 :: string
  coord0 :: "'t list"
  coord1 :: "'f list"
  vals :: "cell list list"

definition dims :: "('t, 'f) DataArray \<Rightarrow> string list" where
  "dims d = [dim0 d, dim1 d]"

definition sizes :: "('t, 'f) DataArray \<Rightarrow> string \<Rightarrow> nat" where
  "sizes d nm = (if nm = dim0 d then length (coord0 d) else length (coord1 d))"

text \<open>The shape of the values agrees with the coordinates, and the two names differ.\<close>

definition wf_array :: "('t, 'f) DataArray \<Rightarrow> bool" where
  "wf_array d \<longleftrightarrow>
     dim0 d \<noteq> dim1 d \<and> length (vals d) = length (coord0 d) \<and>
     list_all (\<lambda>r. length r = length (coord1 d)) (vals d)"

text \<open>
  \<open>DataArray.shift\<close>: a shift by \<open>s\<close> positions along one dimension.  The coordinates stay;
  the values move by \<open>s\<close> (towards higher indices when \<open>s\<close> is positive, towards lower
  ones when it is negative), and the positions left free are filled with NaN.  It is
  called with a dimension of the array only.
\<close>

definition shift_list :: "int \<Rightarrow> 'a \<Rightarrow> 'a list \<Rightarrow> 'a list" where
  "shift_list s fill xs =
     (let n = length xs in
      if 0 \<le> s then replicate (min (nat s) n) fill @ take (n - nat s) xs
      else drop (nat (- s)) xs @ replicate (min (nat (- s)) n) fill)"

definition shift :: "('t, 'f) DataArray \<Rightarrow> string \<Rightarrow> int \<Rightarrow> ('t, 'f) DataArray" where
  "shift d nm s =
     (if nm = dim0 d
      then d\<lparr>vals := shift_list s (replicate (length (coord1 d)) None) (vals d)\<rparr>
      else if nm = dim1 d
      then d\<lparr>vals := map (shift_list s None) (vals d)\<rparr>
      else d)"

text \<open>
  The result of \<open>xr.concat(..., dim="embedding")\<close> followed by
  \<open>assign_coords({"embedding": shifts})\<close>: a three-dimensional array with the new leading
  dimension \<open>embedding\<close>, whose labels are \<open>emb_coord\<close>; \<open>copies X ! k\<close> holds the values
  of the \<open>k\<close>-th array of the list.
\<close>

record ('t, 'f) EmbeddedArray =
  emb_coord :: "int list"
  edim0 :: string
  edim1 :: string
  ecoord0 :: "'t list"
  ecoord1 :: "'f list"
  copies :: "cell list list list"


definition concat_embedding ::
  "('t, 'f) DataArray \<Rightarrow> ('t, 'f) DataArray list \<Rightarrow> int list \<Rightarrow> ('t, 'f) EmbeddedArray" where
  "concat_embedding d ds labels =
     \<lparr>emb_coord = labels, edim0 = dim0 d, edim1 = dim1 d,
      ecoord0 = coord0 d, ecoord1 = coord1 d, copies = map vals ds\<rparr>"

text \<open>
  Python's \<open>xs[:stop]\<close>: a negative \<open>stop\<close> counts from the end, and the result is clipped
  to the list.  \<open>isel_stop X nm stop\<close> is \<open>X.isel({nm: slice(None, stop)})\<close>.
\<close>

definition slice_stop :: "int \<Rightarrow> 'a list \<Rightarrow> 'a list" where
  "slice_stop stop xs =
     (let n = int (length xs) in
      if stop < 0 then take (nat (max 0 (n + stop))) xs else take (nat (min stop n)) xs)"

definition isel_stop :: "('t, 'f) EmbeddedArray \<Rightarrow> string \<Rightarrow> int \<Rightarrow> ('t, 'f) EmbeddedArray" where
  "isel_stop X nm stop =
     (if nm = edim0 X
      then X\<lparr>ecoord0 := slice_stop stop (ecoord0 X),
             copies := map (slice_stop stop) (copies X)\<rparr>
      else if nm = edim1 X
      then X\<lparr>ecoord1 := slice_stop stop (ecoord1 X),
             copies := map (map (slice_stop stop)) (copies X)\<rparr>
      else X)"

section \<open>The lag embedding: \<open>prepare_data_for_eeof\<close>\<close>

text \<open>
  \<open>np.arange(embedding) * tau\<close>.  The integers of the model are unbounded, as Python's
  are; numpy multiplies in 64 bits, which gives the same products as long as
  \<open>(embedding - 1) * tau\<close> stays below \<open>2 ^ 63\<close>.
\<close>

definition arange_times :: "int \<Rightarrow> int \<Rightarrow> int list" where
  "arange_times embedding tau = map (\<lambda>k. int k * tau) [0 ..< nat embedding]"

definition n_samples_cut :: "int \<Rightarrow> int \<Rightarrow> int" where
  "n_samples_cut tau embedding = (embedding - 1) * tau"

definition prepare_data_for_eeof ::
  "('t, 'f) DataArray \<Rightarrow> int \<Rightarrow> int \<Rightarrow> string \<Rightarrow> error + ('t, 'f) EmbeddedArray" where
  "prepare_data_for_eeof data tau embedding time_dim =
     (if embedding < 1 then Inl (ValueError Embedding_lt_1)
      else if tau < 0 then Inl (ValueError Tau_negative)
      else if time_dim \<notin> set (dims data) then Inl (ValueError Time_dim_not_found)
      else
        let n_times_original = sizes data time_dim;
            shifts = arange_times embedding tau;
            shifted_data_list = map (\<lambda>i. shift data time_dim (- i)) shifts;
            X_extended = concat_embedding data shifted_data_list shifts
        in if n_samples_cut tau embedding > 0
           then (if n_samples_cut tau embedding \<ge> int n_times_original
                 then Inl (ValueError Cannot_cut)
                 else Inr (isel_stop X_extended time_dim (- n_samples_cut tau embedding)))
           else if n_samples_cut tau embedding = 0 then Inr X_extended
           else Inl (ValueError Internal_error))"







text \<open>The number of time steps that survive the trimming.\<close>

definition kept :: "('t, 'f) DataArray \<Rightarrow> string \<Rightarrow> int \<Rightarrow> int \<Rightarrow> nat" where
  "kept d nm tau embedding = sizes d nm - nat (n_samples_cut tau embedding)"

section \<open>Calendar dates\<close>

text \<open>
  The scripts compute with Python's \<open>datetime\<close> and with pandas timestamps.  Both use the
  proleptic Gregorian calendar; the definitions below follow the integer arithmetic of
  Python's \<open>datetime\<close> module (\<open>_is_leap\<close>, \<open>_days_before_year\<close>, \<open>_days_before_month\<close>,
  \<open>_ymd2ord\<close>, \<open>_ord2ymd\<close>), in which day 1 is 1 January of year 1.
\<close>

record datetime =
  year :: int
  month :: int
  day :: int
  hour :: int
  minute :: int

definition is_leap :: "int \<Rightarrow> bool" where
  "is_leap y \<longleftrightarrow> y mod 4 = 0 \<and> (y mod 100 \<noteq> 0 \<or> y mod 400 = 0)"

definition DAYS_IN_MONTH :: "int list" where
  "DAYS_IN_MONTH = [-1, 31, 28, 31, 30, 31, 30, 31, 31, 30, 31, 30, 31]"

definition DAYS_BEFORE_MONTH :: "int list" where
  "DAYS_BEFORE_MONTH = [-1, 0, 31, 59, 90, 120, 151, 181, 212, 243, 273, 304, 334]"

definition days_before_year :: "int \<Rightarrow> int" where
  "days_before_year y = (let y1 = y - 1 in y1 * 365 + y1 div 4 - y1 div 100 + y1 div 400)"

definition days_in_month :: "int \<Rightarrow> int \<Rightarrow> int" where
  "days_in_month y m = (if m = 2 \<and> is_leap y then 29 else DAYS_IN_MONTH ! nat m)"

definition days_before_month :: "int \<Rightarrow> int \<Rightarrow> int" where
  "days_before_month y m = DAYS_BEFORE_MONTH ! nat m + (if m > 2 \<and> is_leap y then 1 else 0)"

definition ymd2ord :: "int \<Rightarrow> int \<Rightarrow> int \<Rightarrow> int" where
  "ymd2ord y m d = days_before_year y + days_before_month y m + d"

definition DI400Y :: int where "DI400Y = 146097"
definition DI100Y :: int where "DI100Y = 36524"
definition DI4Y :: int where "DI4Y = 1461"
definition MAXORDINAL :: int where "MAXORDINAL = 3652059"

definition ord2ymd :: "int \<Rightarrow> int \<times> int \<times> int" where
  "ord2ymd n0 =
     (let n = n0 - 1;
          n400 = n div DI400Y; n = n mod DI400Y;
          y = n400 * 400 + 1;
          n100 = n div DI100Y; n = n mod DI100Y;
          n4 = n div DI4Y; n = n mod DI4Y;
          n1 = n div 365; n = n mod 365;
          y = y + n100 * 100 + n4 * 4 + n1
      in if n1 = 4 \<or> n100 = 4 then (y - 1, 12, 31)
         else
           let leapyear = (n1 = 3 \<and> (n4 \<noteq> 24 \<or> n100 = 3));
               m = (n + 50) div 32;
               preceding = DAYS_BEFORE_MONTH ! nat m + (if m > 2 \<and> leapyear then 1 else 0)
           in if preceding > n
              then let m' = m - 1;
                       preceding' = preceding -
                         (DAYS_IN_MONTH ! nat m' + (if m' = 2 \<and> leapyear then 1 else 0))
                   in (y, m', n - preceding' + 1)
              else (y, m, n - preceding + 1))"

definition toordinal :: "datetime \<Rightarrow> int" where
  "toordinal dt = ymd2ord (year dt) (month dt) (day dt)"

text \<open>\<open>datetime.weekday()\<close>: Monday is 0, Thursday is 3.\<close>

definition weekday :: "datetime \<Rightarrow> int" where
  "weekday dt = (toordinal dt + 6) mod 7"

text \<open>
  \<open>dt + timedelta(days=k)\<close>; the time of day stays, and a date outside the years 1 to
  9999 is an \<open>OverflowError\<close>.
\<close>

definition plus_days :: "datetime \<Rightarrow> int \<Rightarrow> error + datetime" where
  "plus_days dt k =
     (let n = toordinal dt + k in
      if 0 < n \<and> n \<le> MAXORDINAL
      then (case ord2ymd n of (y, m, d) \<Rightarrow> Inr (dt\<lparr>year := y, month := m, day := d\<rparr>))
      else Inl OverflowError)"

text \<open>The day of the year, \<open>1\<close> for 1 January, as pandas' \<open>dt.dayofyear\<close>.\<close>

definition dayofyear :: "datetime \<Rightarrow> int" where
  "dayofyear dt = days_before_month (year dt) (month dt) + day dt"

subsection \<open>Parsing and printing\<close>

definition is_digit :: "char \<Rightarrow> bool" where
  "is_digit c \<longleftrightarrow> c \<in> set ''0123456789''"

definition digit_val :: "char \<Rightarrow> int" where
  "digit_val c = int (of_char c) - 48"

definition digits_val :: "string \<Rightarrow> int" where
  "digits_val s = foldl (\<lambda>a c. 10 * a + digit_val c) 0 s"

definition digit_char :: "int \<Rightarrow> char" where
  "digit_char n = char_of (48 + nat n)"

text \<open>A number printed with two and with four decimal digits (\<open>%m\<close>, \<open>%d\<close>; \<open>%Y\<close>).\<close>

definition pad2 :: "int \<Rightarrow> string" where
  "pad2 n = [digit_char (n div 10 mod 10), digit_char (n mod 10)]"

definition pad4 :: "int \<Rightarrow> string" where
  "pad4 n = [digit_char (n div 1000 mod 10), digit_char (n div 100 mod 10),
             digit_char (n div 10 mod 10), digit_char (n mod 10)]"

text \<open>
  \<open>datetime(y, m, d, h, mi)\<close> accepts the years 1 to 9999, the months 1 to 12, the days
  of that month, the hours below 24 and the minutes below 60.
\<close>

definition make_datetime :: "int \<Rightarrow> int \<Rightarrow> int \<Rightarrow> int \<Rightarrow> int \<Rightarrow> error + datetime" where
  "make_datetime y m d h mi =
     (if 1 \<le> y \<and> y \<le> 9999 \<and> 1 \<le> m \<and> m \<le> 12 \<and> 1 \<le> d \<and> d \<le> days_in_month y m \<and>
         0 \<le> h \<and> h < 24 \<and> 0 \<le> mi \<and> mi < 60
      then Inr \<lparr>year = y, month = m, day = d, hour = h, minute = mi\<rparr>
      else Inl (ValueError Bad_date))"

text \<open>
  \<open>datetime.strptime(s, '%Y%m%d')\<close> for a string of eight decimal digits, the form the
  command line documents and \<open>strftime\<close> prints; every other string is answered with the
  \<open>ValueError\<close> of a string that does not match (\<open>strptime\<close> also reads some shorter
  strings, with a month or a day of one digit, which the model leaves out).
\<close>

definition strptime_ymd :: "string \<Rightarrow> error + datetime" where
  "strptime_ymd s =
     (if length s = 8 \<and> list_all is_digit s
      then make_datetime (digits_val (take 4 s)) (digits_val (take 2 (drop 4 s)))
             (digits_val (take 2 (drop 6 s))) 0 0
      else Inl (ValueError Bad_date))"

text \<open>\<open>datetime.strptime(s, "%Y%m%dT%H%MZ")\<close>, for the strings \<open>YYYYMMDDTHHMMZ\<close>.\<close>

definition strptime_ymdThmZ :: "string \<Rightarrow> error + datetime" where
  "strptime_ymdThmZ s =
     (if length s = 14 \<and> list_all is_digit (take 8 s) \<and> s ! 8 = CHR ''T'' \<and>
         list_all is_digit (take 4 (drop 9 s)) \<and> s ! 13 = CHR ''Z''
      then make_datetime (digits_val (take 4 s)) (digits_val (take 2 (drop 4 s)))
             (digits_val (take 2 (drop 6 s))) (digits_val (take 2 (drop 9 s)))
             (digits_val (take 2 (drop 11 s)))
      else Inl (ValueError Bad_date))"

text \<open>\<open>dt.strftime("%Y%m%d")\<close> and \<open>dt.strftime("%Y%m%dT0000Z")\<close>.\<close>

definition strftime_ymd :: "datetime \<Rightarrow> string" where
  "strftime_ymd dt = pad4 (year dt) @ pad2 (month dt) @ pad2 (day dt)"

definition strftime_ymdT0000Z :: "datetime \<Rightarrow> string" where
  "strftime_ymdT0000Z dt = strftime_ymd dt @ ''T0000Z''"

section \<open>The anchor date, the initializations and the file names\<close>

definition get_latest_thursday :: "string \<Rightarrow> error + datetime" where
  "get_latest_thursday input_date =
     (case strptime_ymd input_date of
        Inl e \<Rightarrow> Inl e
      | Inr today \<Rightarrow>
          if weekday today = 3 then Inr today
          else let days_since_thursday = (weekday today - 3) mod 7
               in plus_days today (- days_since_thursday))"

text \<open>
  \<open>forecast_date\<close> is the anchor printed as \<open>YYYYMMDDT0000Z\<close>; \<open>initial\<close> is the list
  comprehension over \<open>range(4, 0, -1)\<close>, each element parsed from \<open>forecast_date\<close>, moved
  back by \<open>i\<close> days and printed again.
\<close>

definition forecast_date :: "string \<Rightarrow> error + string" where
  "forecast_date input_date =
     (case get_latest_thursday input_date of
        Inl e \<Rightarrow> Inl e
      | Inr latest_thursday_date \<Rightarrow> Inr (strftime_ymdT0000Z latest_thursday_date))"

definition initial_entry :: "string \<Rightarrow> int \<Rightarrow> error + string" where
  "initial_entry fd i =
     (case strptime_ymdThmZ fd of
        Inl e \<Rightarrow> Inl e
      | Inr dt \<Rightarrow> (case plus_days dt (- i) of
                    Inl e \<Rightarrow> Inl e
                  | Inr dt' \<Rightarrow> Inr (strftime_ymdT0000Z dt')))"

fun collect :: "(error + 'a) list \<Rightarrow> error + 'a list" where
  "collect [] = Inr []"
| "collect (Inl e # xs) = Inl e"
| "collect (Inr x # xs) = (case collect xs of Inl e \<Rightarrow> Inl e | Inr ys \<Rightarrow> Inr (x # ys))"

definition initial :: "string \<Rightarrow> error + string list" where
  "initial fd = collect (map (initial_entry fd) [4, 3, 2, 1])"

definition members :: "string list" where
  "members = [''mem1'', ''mem2'', ''mem3'', ''mem4'']"

text \<open>\<open>os.path.join\<close> on POSIX paths, for two components.\<close>

definition path_join :: "string \<Rightarrow> string \<Rightarrow> string" where
  "path_join a b =
     (if b \<noteq> [] \<and> hd b = CHR ''/'' then b
      else if a = [] \<or> last a = CHR ''/'' then a @ b
      else a @ ''/'' @ b)"

text \<open>
  The output directory is \<open>~/forecast/MISOs\<close>; the home directory is a parameter.
  \<open>ini[:8]\<close> is \<open>take 8 ini\<close>; \<open>initial[0]\<close> and \<open>initial[-1]\<close> are read from the list of
  four initializations (an empty list would be an \<open>IndexError\<close>).
\<close>

definition directory :: "string \<Rightarrow> string" where
  "directory home = path_join (path_join home ''forecast'') ''MISOs''"

definition file_name :: "string \<Rightarrow> string list \<Rightarrow> string \<Rightarrow> error + string" where
  "file_name mode inis fd =
     (case inis of
        [] \<Rightarrow> Inl IndexError
      | first # _ \<Rightarrow>
          Inr (mode @ ''_CNCUM_IC_'' @ take 8 first @ ''-'' @ take 8 (last inis) @
               ''_FC_'' @ take 8 fd @ ''.nc''))"

definition file_path_1 :: "string \<Rightarrow> string list \<Rightarrow> string \<Rightarrow> error + string" where
  "file_path_1 home inis fd =
     (case file_name ''MISO1'' inis fd of
        Inl e \<Rightarrow> Inl e | Inr f \<Rightarrow> Inr (path_join (directory home) f))"

definition file_path_2 :: "string \<Rightarrow> string list \<Rightarrow> string \<Rightarrow> error + string" where
  "file_path_2 home inis fd =
     (case file_name ''MISO2'' inis fd of
        Inl e \<Rightarrow> Inl e | Inr f \<Rightarrow> Inr (path_join (directory home) f))"

section \<open>The day-of-year climatology and the anomalies\<close>

text \<open>
  \<open>olr_clim\<close> is a field on (time, lat, lon); its time axis is replaced by \<open>n_days\<close>
  consecutive days starting at 1 January 2000 when there are 366 of them and at
  1 January 2001 otherwise, and the fields are averaged by day of the year.
\<close>

type_synonym field = "cell list list"

record Climatology =
  clat :: "real list"
  clon :: "real list"
  cfields :: "field list"

record Grouped =
  gdoy :: "int list"
  glat :: "real list"
  glon :: "real list"
  gfields :: "field list"

text \<open>An array on (time, lat): \<open>tl_vals a ! t ! j\<close> is the cell at time \<open>t\<close> and latitude \<open>j\<close>.\<close>

record TimeLat =
  tl_time :: "datetime list"
  tl_lat :: "real list"
  tl_vals :: "cell list list"

record Anomaly =
  atime :: "datetime list"
  alat :: "real list"
  alon :: "real list"
  avals :: "cell list list list"

definition n_days :: "Climatology \<Rightarrow> nat" where
  "n_days c = length (cfields c)"

definition start_date :: "nat \<Rightarrow> datetime" where
  "start_date n =
     (if n = 366 then \<lparr>year = 2000, month = 1, day = 1, hour = 0, minute = 0\<rparr>
      else \<lparr>year = 2001, month = 1, day = 1, hour = 0, minute = 0\<rparr>)"

definition from_ordinal :: "int \<Rightarrow> datetime" where
  "from_ordinal n =
     (case ord2ymd n of (y, m, d) \<Rightarrow> \<lparr>year = y, month = m, day = d, hour = 0, minute = 0\<rparr>)"

text \<open>
  \<open>pd.date_range(start=..., periods=n, freq='D')\<close>; pandas timestamps end on
  11 April 2262, and a range that passes this day is an \<open>OutOfBoundsDatetime\<close> (a
  \<open>ValueError\<close>).
\<close>

definition date_range :: "datetime \<Rightarrow> nat \<Rightarrow> error + datetime list" where
  "date_range start periods =
     (if toordinal start + int periods - 1 > ymd2ord 2262 4 11
      then Inl (ValueError Out_of_bounds_datetime)
      else Inr (map (\<lambda>i. from_ordinal (toordinal start + int i)) [0 ..< periods]))"

text \<open>The mean of the cells that are not NaN; NaN when there is none (\<open>skipna\<close>).\<close>

definition nanmean :: "cell list \<Rightarrow> cell" where
  "nanmean cs =
     (let xs = concat (map (\<lambda>c. case c of None \<Rightarrow> [] | Some x \<Rightarrow> [x]) cs)
      in if xs = [] then None else Some (sum_list xs / real (length xs)))"

definition mean_fields :: "nat \<Rightarrow> nat \<Rightarrow> field list \<Rightarrow> field" where
  "mean_fields nlat nlon fs =
     map (\<lambda>i. map (\<lambda>j. nanmean (map (\<lambda>f. f ! i ! j) fs)) [0 ..< nlon]) [0 ..< nlat]"

text \<open>
  \<open>olr_clim.groupby('time.dayofyear').mean('time')\<close>: one field for each day of the year
  that occurs on the new time axis, in increasing order of the day of the year.
\<close>

definition group_keys :: "datetime list \<Rightarrow> int list" where
  "group_keys ts = sort (remdups (map dayofyear ts))"

definition olr_clim_grouped :: "Climatology \<Rightarrow> error + Grouped" where
  "olr_clim_grouped olr_clim =
     (case date_range (start_date (n_days olr_clim)) (n_days olr_clim) of
        Inl e \<Rightarrow> Inl e
      | Inr correct_times \<Rightarrow>
          Inr \<lparr>gdoy = group_keys correct_times, glat = clat olr_clim, glon = clon olr_clim,
               gfields = map (\<lambda>k. mean_fields (length (clat olr_clim)) (length (clon olr_clim))
                                   (map snd (filter (\<lambda>(t, f). dayofyear t = k)
                                               (zip correct_times (cfields olr_clim)))))
                           (group_keys correct_times)\<rparr>)"

text \<open>
  \<open>g.sel(dayofyear=day_of_year)\<close>: the field of every requested day of the year; a label
  that is not in the index is a \<open>KeyError\<close>.
\<close>

definition sel_dayofyear :: "Grouped \<Rightarrow> int list \<Rightarrow> error + field list" where
  "sel_dayofyear g doys =
     collect (map (\<lambda>d. case map_of (zip (gdoy g) (gfields g)) d of
                          None \<Rightarrow> Inl KeyError
                        | Some f \<Rightarrow> Inr f) doys)"

definition sub_cell :: "cell \<Rightarrow> cell \<Rightarrow> cell" where
  "sub_cell a b = (case (a, b) of (Some x, Some y) \<Rightarrow> Some (x - y) | _ \<Rightarrow> None)"

definition index_of :: "'a \<Rightarrow> 'a list \<Rightarrow> nat" where
  "index_of x xs = length (takeWhile (\<lambda>y. y \<noteq> x) xs)"

text \<open>
  The anomaly of one forecast (the body of the loop over initializations and members):
  the days of the year of the forecast's time axis are looked up in the grouped
  climatology, and the fields found are subtracted from the forecast.  The subtraction
  keeps the latitudes that both arrays have (xarray's inner join) and repeats the
  forecast, which has no longitude axis, along the longitudes of the climatology.
\<close>

definition olr_forecast_anom :: "Grouped \<Rightarrow> TimeLat \<Rightarrow> error + Anomaly" where
  "olr_forecast_anom g olr_forecast =
     (let day_of_year = map dayofyear (tl_time olr_forecast) in
      case sel_dayofyear g day_of_year of
        Inl e \<Rightarrow> Inl e
      | Inr profiles \<Rightarrow>
          let lats = filter (\<lambda>l. l \<in> set (glat g)) (tl_lat olr_forecast) in
          Inr \<lparr>atime = tl_time olr_forecast, alat = lats, alon = glon g,
               avals = map (\<lambda>(row, prof).
                         map (\<lambda>l. map (sub_cell (row ! index_of l (tl_lat olr_forecast)))
                                     (prof ! index_of l (glat g))) lats)
                       (zip (tl_vals olr_forecast) profiles)\<rparr>)"

section \<open>The projection on the eigenvectors: \<open>miso_scores\<close>\<close>

text \<open>
  \<open>eeofs\<close> is an array on (mode, embedding, lat) and \<open>miso_scores_std\<close> an array on
  (mode), both with coordinate labels.  The anomalies that are embedded are arrays on
  (time, lat), so the embedded array is on (embedding, time, lat).
\<close>

record Eeofs =
  e_mode :: "int list"
  e_emb :: "int list"
  e_lat :: "real list"
  e_vals :: "cell list list list"


record IndexSeries =
  sname :: string
  stime :: "datetime list"
  svalues :: "cell list"


definition mul_cell :: "cell \<Rightarrow> cell \<Rightarrow> cell" where
  "mul_cell a b = (case (a, b) of (Some x, Some y) \<Rightarrow> Some (x * y) | _ \<Rightarrow> None)"

text \<open>
  A division by zero gives an infinity or NaN in floating point; the model has no
  infinities and writes \<open>None\<close> for both.
\<close>

definition div_cell :: "cell \<Rightarrow> cell \<Rightarrow> cell" where
  "div_cell a b =
     (case (a, b) of (Some x, Some y) \<Rightarrow> (if y = 0 then None else Some (x / y)) | _ \<Rightarrow> None)"

text \<open>A sum with \<open>skipna\<close>, xarray's default for floating-point data, counts NaN as zero.\<close>

definition nansum :: "cell list \<Rightarrow> cell" where
  "nansum cs = Some (sum_list (map (\<lambda>c. case c of None \<Rightarrow> 0 | Some x \<Rightarrow> x) cs))"

text \<open>
  \<open>(eeofs * X).sum(dim=['embedding', 'lat'])\<close>: the product is taken on the labels that
  both arrays have along \<open>embedding\<close> and along \<open>lat\<close> (the inner join of xarray's
  arithmetic) and is repeated along \<open>mode\<close> and \<open>time\<close>; the result is on (mode, time).
\<close>

definition raw_scores :: "Eeofs \<Rightarrow> (datetime, real) EmbeddedArray \<Rightarrow> cell list list" where
  "raw_scores eeofs X =
     (let embs = filter (\<lambda>e. e \<in> set (emb_coord X)) (e_emb eeofs);
          lats = filter (\<lambda>l. l \<in> set (ecoord1 X)) (e_lat eeofs)
      in map (\<lambda>m. map (\<lambda>t.
               nansum (concat (map (\<lambda>e. map (\<lambda>l.
                   mul_cell (e_vals eeofs ! m ! index_of e (e_emb eeofs) ! index_of l (e_lat eeofs))
                            (copies X ! index_of e (emb_coord X) ! t ! index_of l (ecoord1 X)))
                 lats) embs)))
             [0 ..< length (ecoord0 X)])
           [0 ..< length (e_mode eeofs)])"



section \<open>The composite: the combined data sets and the ensemble mean\<close>

text \<open>
  A data set has one time axis and named variables on it.  \<open>xr.Dataset({...})\<close> joins the
  time axes of the series it is given (the union of the time stamps, in increasing
  order) and writes NaN where a series has no value for a time stamp.
\<close>

record Dataset =
  d_time :: "datetime list"
  d_vars :: "(string \<times> cell list) list"

definition time_key :: "datetime \<Rightarrow> int" where
  "time_key dt = (toordinal dt * 24 + hour dt) * 60 + minute dt"

definition value_at :: "IndexSeries \<Rightarrow> datetime \<Rightarrow> cell" where
  "value_at s t = (case map_of (zip (stime s) (svalues s)) t of None \<Rightarrow> None | Some c \<Rightarrow> c)"

text \<open>
  The dictionary comprehension of the script uses the keys \<open>f'MISO1_{ini}_{member}'\<close>;
  the data set is built from the (key, series) pairs, a later pair with the same key
  replacing an earlier one.
\<close>

definition combine :: "(string \<times> IndexSeries) list \<Rightarrow> Dataset" where
  "combine entries =
     (let ts = sort_key time_key (remdups (concat (map (\<lambda>(k, s). stime s) entries)))
      in \<lparr>d_time = ts,
          d_vars = map (\<lambda>k. (k, map (value_at (the (map_of (rev entries) k))) ts))
                      (remdups (map fst entries))\<rparr>)"

definition var_key :: "string \<Rightarrow> string \<Rightarrow> string \<Rightarrow> string" where
  "var_key mode ini member = mode @ ''_'' @ ini @ ''_'' @ member"

text \<open>\<open>ds[name]\<close>: a variable that the data set does not have is a \<open>KeyError\<close>.\<close>

definition get_var :: "Dataset \<Rightarrow> string \<Rightarrow> error + cell list" where
  "get_var ds name = (case map_of (d_vars ds) name of None \<Rightarrow> Inl KeyError | Some v \<Rightarrow> Inr v)"

text \<open>
  The running total starts as the number 0 and becomes an array with the first addition.
\<close>

datatype total = Scalar real | Array "cell list"

definition add_cell :: "cell \<Rightarrow> cell \<Rightarrow> cell" where
  "add_cell a b = (case (a, b) of (Some x, Some y) \<Rightarrow> Some (x + y) | _ \<Rightarrow> None)"

fun add_total :: "total \<Rightarrow> cell list \<Rightarrow> total" where
  "add_total (Scalar s) xs = Array (map (add_cell (Some s)) xs)"
| "add_total (Array a) xs = Array (map (\<lambda>(x, y). add_cell x y) (zip a xs))"

fun sum_members :: "Dataset \<Rightarrow> total \<Rightarrow> string list \<Rightarrow> error + total" where
  "sum_members ds tot [] = Inr tot"
| "sum_members ds tot (k # ks) =
     (case get_var ds k of
        Inl e \<Rightarrow> Inl e
      | Inr miso_data \<Rightarrow> sum_members ds (add_total tot miso_data) ks)"

definition divide_total :: "total \<Rightarrow> nat \<Rightarrow> error + total" where
  "divide_total tot n =
     (case tot of
        Scalar s \<Rightarrow> (if n = 0 then Inl ZeroDivisionError else Inr (Scalar (s / real n)))
      | Array a \<Rightarrow> Inr (Array (map (\<lambda>c. div_cell c (Some (real n))) a)))"

text \<open>
  The two nested loops of the plotting script and the division by
  \<open>len(initial) * len(members)\<close>; the keys are visited initialization by initialization.
\<close>

definition member_keys :: "string \<Rightarrow> string list \<Rightarrow> string list \<Rightarrow> string list" where
  "member_keys mode inis mems = concat (map (\<lambda>ini. map (\<lambda>member. var_key mode ini member) mems) inis)"

definition miso_average :: "string \<Rightarrow> Dataset \<Rightarrow> string list \<Rightarrow> string list \<Rightarrow> error + total" where
  "miso_average mode ds inis mems =
     (case sum_members ds (Scalar 0) (member_keys mode inis mems) of
        Inl e \<Rightarrow> Inl e
      | Inr miso_total \<Rightarrow>
          let num_entries = length inis * length mems
          in divide_total miso_total num_entries)"

section \<open>Example data\<close>

text \<open>Small arrays on which the theorems below are instantiated.\<close>

definition june :: "int \<Rightarrow> datetime" where
  "june d = \<lparr>year = 2024, month = 6, day = d, hour = 0, minute = 0\<rparr>"

definition zero_anomaly :: "(datetime, real) DataArray" where
  "zero_anomaly =
     \<lparr>dim0 = ''time'', dim1 = ''lat'', coord0 = [june 1, june 2, june 3], coord1 = [10],
      vals = [[Some 0], [Some 0], [Some 0]]\<rparr>"




definition two_members :: Dataset where
  "two_members =
     \<lparr>d_time = [june 13, june 14, june 15],
      d_vars = [(''MISO1_20240612T0000Z_mem1'', [Some 1, Some 2, Some 3]),
                (''MISO1_20240612T0000Z_mem2'', [Some 3, Some 4, Some 5])]\<rparr>"

section \<open>Properties of the lag embedding\<close>

lemma shift_list_0: "shift_list 0 fill xs = xs"
  by (simp add: shift_list_def)


lemma cut_nonneg: "1 \<le> embedding \<Longrightarrow> 0 \<le> tau \<Longrightarrow> 0 \<le> n_samples_cut tau embedding"
  by (simp add: n_samples_cut_def)

lemma shift_list_neg:
  "0 \<le> i \<Longrightarrow> shift_list (- i) fill xs = drop (nat i) xs @ replicate (min (nat i) (length xs)) fill"
  by (cases "i = 0") (simp_all add: shift_list_def)

lemma slice_stop_neg:
  "0 < c \<Longrightarrow> c < int (length xs) \<Longrightarrow> slice_stop (- c) xs = take (length xs - nat c) xs"
  by (simp add: slice_stop_def Let_def nat_diff_distrib')

lemma trim_shift:
  assumes "0 \<le> i" "i \<le> c" "0 < c" "c < int (length xs)"
  shows "slice_stop (- c) (shift_list (- i) fill xs) = take (length xs - nat c) (drop (nat i) xs)"
proof -
  have len: "length (shift_list (- i) fill xs) = length xs"
    using assms by (simp add: shift_list_neg)
  have "slice_stop (- c) (shift_list (- i) fill xs)
        = take (length xs - nat c) (shift_list (- i) fill xs)"
    using assms len slice_stop_neg[of c "shift_list (- i) fill xs"] by simp
  also have "\<dots> = take (length xs - nat c) (drop (nat i) xs)"
    using assms by (simp add: shift_list_neg)
  finally show ?thesis .
qed


lemma shifts_bounds:
  assumes "1 \<le> embedding" "0 \<le> tau" "i \<in> set (arange_times embedding tau)"
  shows "0 \<le> i \<and> i \<le> n_samples_cut tau embedding"
proof -
  from assms(3) obtain k where k: "k < nat embedding" "i = int k * tau"
    by (auto simp: arange_times_def)
  then have "int k \<le> embedding - 1" using assms(1) by linarith
  then have "int k * tau \<le> (embedding - 1) * tau"
    using assms(2) by (rule mult_right_mono)
  with k assms(2) show ?thesis by (simp add: n_samples_cut_def)
qed

lemma window_copy:
  assumes "0 \<le> i" "i \<le> c" "0 \<le> c" "c < int (length xs)"
  shows "(if 0 < c then slice_stop (- c) (shift_list (- i) fill xs) else shift_list (- i) fill xs)
         = take (length xs - nat c) (drop (nat i) xs)"
proof (cases "0 < c")
  case True
  with assms show ?thesis by (simp add: trim_shift)
next
  case False
  with assms have "c = 0" "i = 0" by simp_all
  then show ?thesis by (simp add: shift_list_0)
qed

lemma prepare_ok:
  assumes e: "1 \<le> embedding" and t: "0 \<le> tau" and td: "time_dim \<in> set (dims data)"
    and c: "n_samples_cut tau embedding < int (sizes data time_dim)" and wf: "wf_array data"
  shows "prepare_data_for_eeof data tau embedding time_dim = Inr
     (if time_dim = dim0 data then
        \<lparr>emb_coord = arange_times embedding tau, edim0 = dim0 data, edim1 = dim1 data,
         ecoord0 = take (kept data time_dim tau embedding) (coord0 data), ecoord1 = coord1 data,
         copies = map (\<lambda>i. take (kept data time_dim tau embedding) (drop (nat i) (vals data)))
                    (arange_times embedding tau)\<rparr>
      else
        \<lparr>emb_coord = arange_times embedding tau, edim0 = dim0 data, edim1 = dim1 data,
         ecoord0 = coord0 data, ecoord1 = take (kept data time_dim tau embedding) (coord1 data),
         copies = map (\<lambda>i. map (\<lambda>r. take (kept data time_dim tau embedding) (drop (nat i) r)) (vals data))
                    (arange_times embedding tau)\<rparr>)"
proof -
  let ?c = "n_samples_cut tau embedding"
  let ?L = "sizes data time_dim"
  have c0: "0 \<le> ?c" using e t by (simp add: n_samples_cut_def)
  have b: "\<And>i. i \<in> set (arange_times embedding tau) \<Longrightarrow> 0 \<le> i \<and> i \<le> ?c"
    using shifts_bounds[OF e t] by blast
  show ?thesis
  proof (cases "time_dim = dim0 data")
    case True
    then have L: "length (vals data) = ?L" "length (coord0 data) = ?L"
      using wf by (simp_all add: wf_array_def sizes_def)
    have cp: "(if 0 < ?c then slice_stop (- ?c) (shift_list (- i) (replicate (length (coord1 data)) None) (vals data))
         else shift_list (- i) (replicate (length (coord1 data)) None) (vals data))
        = take (?L - nat ?c) (drop (nat i) (vals data))"
      if "i \<in> set (arange_times embedding tau)" for i
    proof -
      have "0 \<le> i" "i \<le> ?c" "?c < int (length (vals data))"
        using b[OF that] c L by simp_all
      from window_copy[OF this(1,2) c0 this(3)] show ?thesis using L by simp
    qed
    have co: "(if 0 < ?c then slice_stop (- ?c) (coord0 data) else coord0 data)
        = take (?L - nat ?c) (coord0 data)"
      using c c0 L slice_stop_neg[of ?c "coord0 data"] by simp
    show ?thesis
    proof (cases "0 < ?c")
      case pos: True
      then show ?thesis
        using True e t td c cp co
        by (simp add: prepare_data_for_eeof_def Let_def concat_embedding_def isel_stop_def
            shift_def kept_def o_def cong: map_cong)
    next
      case False
      with c0 have z: "?c = 0" by simp
      then show ?thesis
        using True e t td c cp co
        by (simp add: prepare_data_for_eeof_def Let_def concat_embedding_def
            shift_def kept_def o_def cong: map_cong)
    qed
  next
    case False
    with td have d1: "time_dim = dim1 data" by (simp add: dims_def)
    have L: "length (coord1 data) = ?L" "\<And>r. r \<in> set (vals data) \<Longrightarrow> length r = ?L"
      using wf False by (simp_all add: wf_array_def sizes_def list_all_iff)
    have cp: "(if 0 < ?c then slice_stop (- ?c) (shift_list (- i) None r)
         else shift_list (- i) None r)
        = take (?L - nat ?c) (drop (nat i) r)"
      if "i \<in> set (arange_times embedding tau)" "r \<in> set (vals data)" for i r
    proof -
      have "0 \<le> i" "i \<le> ?c" "?c < int (length r)"
        using b[OF that(1)] c L(2)[OF that(2)] by simp_all
      from window_copy[OF this(1,2) c0 this(3)] show ?thesis using L(2)[OF that(2)] by simp
    qed
    have co: "(if 0 < ?c then slice_stop (- ?c) (coord1 data) else coord1 data)
        = take (?L - nat ?c) (coord1 data)"
      using c c0 L slice_stop_neg[of ?c "coord1 data"] by simp
    show ?thesis
    proof (cases "0 < ?c")
      case pos: True
      then show ?thesis
        using False d1 e t td c cp co
        by (simp add: prepare_data_for_eeof_def Let_def concat_embedding_def isel_stop_def
            shift_def kept_def o_def cong: map_cong)
    next
      case False
      with c0 have z: "?c = 0" by simp
      then show ?thesis
        using \<open>time_dim \<noteq> dim0 data\<close> d1 e t td c cp co
        by (simp add: prepare_data_for_eeof_def Let_def concat_embedding_def
            shift_def kept_def o_def cong: map_cong)
    qed
  qed
qed



lemma arange_times_nth:
  "k < nat embedding \<Longrightarrow> 0 \<le> tau \<Longrightarrow> nat (arange_times embedding tau ! k) = k * nat tau"
  by (simp add: arange_times_def nat_mult_distrib)

lemma kept_bound:
  assumes "1 \<le> embedding" "0 \<le> tau" "k < nat embedding" "t' < kept data time_dim tau embedding"
  shows "k * nat tau + t' < sizes data time_dim"
proof -
  have "int k \<le> embedding - 1" using assms(1,3) by linarith
  then have "int k * tau \<le> (embedding - 1) * tau"
    using assms(2) by (rule mult_right_mono)
  then have "nat (int k * tau) \<le> nat ((embedding - 1) * tau)"
    by (rule nat_mono)
  then have "k * nat tau \<le> nat (n_samples_cut tau embedding)"
    by (simp add: n_samples_cut_def nat_mult_distrib)
  with assms(4) show ?thesis by (simp add: kept_def)
qed











text \<open>
  Claim C10.  Once \<open>embedding \<ge> 1\<close> and \<open>tau \<ge> 0\<close> hold, the trim amount
  \<open>(embedding - 1) * tau\<close> is not negative, and no call ever ends in the branch that
  raises the "Internal error" \<open>ValueError\<close>.
\<close>

theorem no_internal_error:
  "prepare_data_for_eeof data tau embedding time_dim \<noteq> Inl (ValueError Internal_error)
   \<and> (1 \<le> embedding \<and> 0 \<le> tau \<longrightarrow> 0 \<le> n_samples_cut tau embedding)"
proof (cases "1 \<le> embedding \<and> 0 \<le> tau")
  case True
  then have "0 \<le> n_samples_cut tau embedding" by (simp add: cut_nonneg)
  with True show ?thesis
    by (auto simp: prepare_data_for_eeof_def Let_def)
next
  case False
  then show ?thesis
    by (auto simp: prepare_data_for_eeof_def Let_def)
qed

theorem no_internal_error_witness:
  "prepare_data_for_eeof
     \<lparr>dim0 = ''time'', dim1 = ''lat'', coord0 = [0::nat, 1, 2], coord1 = [0::nat],
      vals = [[Some 1], [Some 2], [Some 3]]\<rparr> 1 2 ''time'' \<noteq> Inl (ValueError Internal_error)
   \<and> (0::int) \<le> n_samples_cut 1 2"
  using no_internal_error[of "\<lparr>dim0 = ''time'', dim1 = ''lat'', coord0 = [0::nat, 1, 2],
      coord1 = [0::nat], vals = [[Some 1], [Some 2], [Some 3]]\<rparr>" 1 2 "''time''"]
  by simp

section \<open>Properties of the anchor date and the file names\<close>

text \<open>
  Claim C8.  For the argument \<open>20240613\<close> the anchor is 13 June 2024 itself, a Thursday;
  the initializations are the four days 9, 10, 11 and 12 June 2024, in this order; and the
  names of the two output files carry \<open>20240609-20240612\<close> as the range of the
  initializations and \<open>20240613\<close> as the forecast tag.
\<close>

theorem anchor_20240613:
  "get_latest_thursday ''20240613'' =
     Inr \<lparr>year = 2024, month = 6, day = 13, hour = 0, minute = 0\<rparr> \<and>
   weekday \<lparr>year = 2024, month = 6, day = 13, hour = 0, minute = 0\<rparr> = 3 \<and>
   forecast_date ''20240613'' = Inr ''20240613T0000Z'' \<and>
   initial ''20240613T0000Z'' =
     Inr [''20240609T0000Z'', ''20240610T0000Z'', ''20240611T0000Z'', ''20240612T0000Z''] \<and>
   file_path_1 home [''20240609T0000Z'', ''20240610T0000Z'', ''20240611T0000Z'', ''20240612T0000Z'']
       ''20240613T0000Z'' =
     Inr (path_join (directory home) ''MISO1_CNCUM_IC_20240609-20240612_FC_20240613.nc'') \<and>
   file_path_2 home [''20240609T0000Z'', ''20240610T0000Z'', ''20240611T0000Z'', ''20240612T0000Z'']
       ''20240613T0000Z'' =
     Inr (path_join (directory home) ''MISO2_CNCUM_IC_20240609-20240612_FC_20240613.nc'')"
proof -
  have 1: "get_latest_thursday ''20240613'' =
     Inr \<lparr>year = 2024, month = 6, day = 13, hour = 0, minute = 0\<rparr>"
    by code_simp
  have 2: "weekday \<lparr>year = 2024, month = 6, day = 13, hour = 0, minute = 0\<rparr> = 3"
    by code_simp
  have 3: "forecast_date ''20240613'' = Inr ''20240613T0000Z''"
    by code_simp
  have 4: "initial ''20240613T0000Z'' =
     Inr [''20240609T0000Z'', ''20240610T0000Z'', ''20240611T0000Z'', ''20240612T0000Z'']"
    by code_simp
  have 5: "file_name ''MISO1''
       [''20240609T0000Z'', ''20240610T0000Z'', ''20240611T0000Z'', ''20240612T0000Z'']
       ''20240613T0000Z'' = Inr ''MISO1_CNCUM_IC_20240609-20240612_FC_20240613.nc''"
    by code_simp
  have 6: "file_name ''MISO2''
       [''20240609T0000Z'', ''20240610T0000Z'', ''20240611T0000Z'', ''20240612T0000Z'']
       ''20240613T0000Z'' = Inr ''MISO2_CNCUM_IC_20240609-20240612_FC_20240613.nc''"
    by code_simp
  show ?thesis
    unfolding file_path_1_def file_path_2_def 5 6 using 1 2 3 4 by simp
qed

text \<open>With the home directory \<open>/home/user\<close> the first file is written to the path below.\<close>

theorem anchor_20240613_witness:
  "file_path_1 ''/home/user''
       [''20240609T0000Z'', ''20240610T0000Z'', ''20240611T0000Z'', ''20240612T0000Z'']
       ''20240613T0000Z'' =
     Inr ''/home/user/forecast/MISOs/MISO1_CNCUM_IC_20240609-20240612_FC_20240613.nc''"
proof -
  have "path_join (directory ''/home/user'') ''MISO1_CNCUM_IC_20240609-20240612_FC_20240613.nc''
        = ''/home/user/forecast/MISOs/MISO1_CNCUM_IC_20240609-20240612_FC_20240613.nc''"
    by code_simp
  then show ?thesis using anchor_20240613[of "''/home/user''"] by simp
qed

section \<open>Properties of the anomaly constructor\<close>

lemma month_table:
  "list_all (\<lambda>k. DAYS_BEFORE_MONTH ! k + DAYS_IN_MONTH ! k = DAYS_BEFORE_MONTH ! Suc k) [1 ..< 12]"
  by code_simp

lemma month_table_nth:
  assumes "2 \<le> m" "m \<le> 12"
  shows "DAYS_BEFORE_MONTH ! nat m - DAYS_IN_MONTH ! nat (m - 1) = DAYS_BEFORE_MONTH ! nat (m - 1)"
proof -
  have "nat (m - 1) \<in> set [1 ..< 12]" using assms by auto
  then have "DAYS_BEFORE_MONTH ! nat (m - 1) + DAYS_IN_MONTH ! nat (m - 1)
             = DAYS_BEFORE_MONTH ! Suc (nat (m - 1))"
    using month_table unfolding list_all_iff by blast
  moreover have "Suc (nat (m - 1)) = nat m" using assms by simp
  ultimately show ?thesis by simp
qed

lemma start_365: "toordinal (start_date 365) = 730486"
  by code_simp

lemma not_leap_2001: "\<not> is_leap 2001"
  by code_simp

lemma div_mod_2001:
  assumes "0 \<le> i" "i < (365::int)"
  shows "(730485 + i) div 146097 = 5" "(730485 + i) mod 146097 = i"
proof -
  have e: "730485 + i = i + 5 * 146097" by simp
  show d: "(730485 + i) div 146097 = 5" unfolding e using assms by simp
  have "(730485 + i) mod 146097 = (730485 + i) - (730485 + i) div 146097 * 146097"
    by (simp only: minus_div_mult_eq_mod)
  then show "(730485 + i) mod 146097 = i" unfolding d by simp
qed


lemma ord2ymd_2001:
  assumes "0 \<le> i" "i < 365"
  shows "ord2ymd (730486 + i) =
     (let m = (i + 50) div 32; preceding = DAYS_BEFORE_MONTH ! nat m
      in if preceding > i
         then (2001, m - 1, i - (preceding - DAYS_IN_MONTH ! nat (m - 1)) + 1)
         else (2001, m, i - preceding + 1))"
proof -
  have n: "730486 + i - 1 = 730485 + i" by simp
  have b: "i div 36524 = 0" "i mod 36524 = i" "i div 1461 = 0" "i mod 1461 = i"
    "i div 365 = 0" "i mod 365 = i"
    using assms by simp_all
  have c: "(5::int) * 400 + 1 + 0 * 100 + 0 * 4 + 0 = 2001" by simp
  show ?thesis
    unfolding ord2ymd_def Let_def DI400Y_def DI100Y_def DI4Y_def n div_mod_2001[OF assms] b c
    by (simp only: zero_neq_numeral simp_thms if_False add_0_right)
qed

lemma doy_2001:
  assumes "0 \<le> i" "i < 365"
  shows "dayofyear (from_ordinal (730486 + i)) = i + 1"
proof -
  define m where "m = (i + 50) div 32"
  define p where "p = DAYS_BEFORE_MONTH ! nat m"
  have m: "1 \<le> m" "m \<le> 12" using assms unfolding m_def by linarith+
  have o: "ord2ymd (730486 + i) =
      (if p > i then (2001, m - 1, i - (p - DAYS_IN_MONTH ! nat (m - 1)) + 1)
       else (2001, m, i - p + 1))"
    using ord2ymd_2001[OF assms] unfolding Let_def m_def p_def .
  show ?thesis
  proof (cases "p > i")
    case True
    have "DAYS_BEFORE_MONTH ! nat 1 = 0" by (simp add: DAYS_BEFORE_MONTH_def)
    with True assms(1) have "m \<noteq> 1" unfolding p_def by auto
    with m have m2: "2 \<le> m" by simp
    have "p - DAYS_IN_MONTH ! nat (m - 1) = DAYS_BEFORE_MONTH ! nat (m - 1)"
      unfolding p_def by (rule month_table_nth[OF m2 m(2)])
    with o True have "ord2ymd (730486 + i) = (2001, m - 1, i - DAYS_BEFORE_MONTH ! nat (m - 1) + 1)"
      by simp
    then show ?thesis
      by (simp add: from_ordinal_def dayofyear_def days_before_month_def not_leap_2001)
  next
    case False
    with o have "ord2ymd (730486 + i) = (2001, m, i - p + 1)" by simp
    then show ?thesis
      by (simp add: from_ordinal_def dayofyear_def days_before_month_def not_leap_2001 p_def)
  qed
qed

lemma collect_KeyError:
  assumes "\<forall>x \<in> set xs. x = Inl KeyError \<or> (\<exists>v. x = Inr v)" "Inl KeyError \<in> set xs"
  shows "collect xs = Inl KeyError"
  using assms
proof (induction xs rule: collect.induct)
  case 1
  then show ?case by simp
next
  case (2 e xs)
  then show ?case by auto
next
  case (3 x xs)
  then have "collect xs = Inl KeyError" by auto
  then show ?case by simp
qed

lemma group_keys_365:
  assumes "date_range (start_date 365) 365 = Inr ts"
  shows "366 \<notin> set (group_keys ts)"
proof -
  have ts: "ts = map (\<lambda>i. from_ordinal (730486 + int i)) [0 ..< 365]"
    using assms by (simp add: date_range_def start_365 split: if_splits)
  have "dayofyear t \<noteq> 366" if "t \<in> set ts" for t
  proof -
    from that obtain i where i: "i < 365" "t = from_ordinal (730486 + int i)"
      unfolding ts by auto
    then have "dayofyear t = int i + 1" using doy_2001[of "int i"] by simp
    with i(1) show ?thesis by linarith
  qed
  then show ?thesis by (auto simp: group_keys_def)
qed

lemma date_range_365: "\<exists>ts. date_range (start_date 365) 365 = Inr ts \<and> length ts = 365"
proof -
  have "ymd2ord 2262 4 11 = 825914" by code_simp
  then show ?thesis by (simp add: date_range_def start_365)
qed

text \<open>
  Claim C9.  When the climatology has 365 time steps, its grouped table has no entry for
  the day of the year 366, and the anomaly of every series that has a time stamp with
  the day of the year 366 is a \<open>KeyError\<close>.
\<close>

theorem leap_day_lookup_error:
  assumes "n_days olr_clim = 365" "t \<in> set (tl_time olr_forecast)" "dayofyear t = 366"
  shows "\<exists>g. olr_clim_grouped olr_clim = Inr g \<and> 366 \<notin> set (gdoy g) \<and>
             olr_forecast_anom g olr_forecast = Inl KeyError"
proof -
  from date_range_365 obtain ts where ts: "date_range (start_date 365) 365 = Inr ts" by blast
  define g where "g = \<lparr>gdoy = group_keys ts, glat = clat olr_clim, glon = clon olr_clim,
               gfields = map (\<lambda>k. mean_fields (length (clat olr_clim)) (length (clon olr_clim))
                                   (map snd (filter (\<lambda>(t, f). dayofyear t = k)
                                               (zip ts (cfields olr_clim)))))
                           (group_keys ts)\<rparr>"
  have 1: "olr_clim_grouped olr_clim = Inr g"
    using assms(1) ts by (simp add: olr_clim_grouped_def g_def)
  have 2: "366 \<notin> set (gdoy g)" using group_keys_365[OF ts] by (simp add: g_def)
  have miss: "map_of (zip (gdoy g) (gfields g)) 366 = None"
    using 2 by (simp add: g_def)
  let ?look = "\<lambda>d. case map_of (zip (gdoy g) (gfields g)) d of
                          None \<Rightarrow> Inl KeyError | Some f \<Rightarrow> Inr f"
  have "Inl KeyError \<in> set (map ?look (map dayofyear (tl_time olr_forecast)))"
    using assms(2,3) miss by (force simp: image_iff)
  moreover have "\<forall>x \<in> set (map ?look (map dayofyear (tl_time olr_forecast))). x = Inl KeyError \<or> (\<exists>v. x = Inr v)"
    by (auto split: option.splits)
  ultimately have "sel_dayofyear g (map dayofyear (tl_time olr_forecast)) = Inl KeyError"
    unfolding sel_dayofyear_def by (rule collect_KeyError[rotated])
  then have 3: "olr_forecast_anom g olr_forecast = Inl KeyError"
    by (simp add: olr_forecast_anom_def)
  from 1 2 3 show ?thesis by blast
qed

theorem leap_day_lookup_error_witness:
  "\<exists>g. olr_clim_grouped \<lparr>clat = [0], clon = [0], cfields = replicate 365 [[Some 1]]\<rparr> = Inr g \<and>
        366 \<notin> set (gdoy g) \<and>
        olr_forecast_anom g
          \<lparr>tl_time = [\<lparr>year = 2024, month = 12, day = 31, hour = 0, minute = 0\<rparr>], tl_lat = [0],
           tl_vals = [[Some 2]]\<rparr> = Inl KeyError"
proof (rule leap_day_lookup_error)
  show "n_days \<lparr>clat = [0], clon = [0], cfields = replicate 365 [[Some 1]]\<rparr> = 365"
    by (simp add: n_days_def)
  show "\<lparr>year = 2024, month = 12, day = 31, hour = 0, minute = 0\<rparr>
        \<in> set (tl_time \<lparr>tl_time = [\<lparr>year = 2024, month = 12, day = 31, hour = 0, minute = 0\<rparr>],
                      tl_lat = [0], tl_vals = [[Some 2]]\<rparr>)"
    by simp
  show "dayofyear \<lparr>year = 2024, month = 12, day = 31, hour = 0, minute = 0\<rparr> = 366"
    by code_simp
qed


section \<open>Properties of the projection\<close>

lemma index_of_less: "x \<in> set xs \<Longrightarrow> index_of x xs < length xs"
  unfolding index_of_def by (induction xs) auto

lemma nansum_zero:
  assumes "\<forall>c \<in> set cs. c = None \<or> c = Some 0"
  shows "nansum cs = Some 0"
proof -
  have "\<forall>c \<in> set cs. (case c of None \<Rightarrow> 0 | Some x \<Rightarrow> x) = (0::real)"
    using assms by (auto split: option.splits)
  then have "sum_list (map (\<lambda>c. case c of None \<Rightarrow> 0 | Some x \<Rightarrow> x) cs) = (0::real)"
    by (induction cs) simp_all
  then show ?thesis by (simp add: nansum_def)
qed

lemma mul_cell_zero: "mul_cell c (Some 0) = None \<or> mul_cell c (Some 0) = Some 0"
  by (cases c) (simp_all add: mul_cell_def)

lemma embedded_cells:
  assumes e: "1 \<le> embedding" and t: "0 \<le> tau"
    and c: "n_samples_cut tau embedding < int (sizes data (dim0 data))" and wf: "wf_array data"
  shows "\<exists>X. prepare_data_for_eeof data tau embedding (dim0 data) = Inr X \<and>
           length (emb_coord X) = nat embedding \<and>
           length (ecoord0 X) = kept data (dim0 data) tau embedding \<and>
           ecoord1 X = coord1 data \<and>
           (\<forall>k < nat embedding. \<forall>t' < kept data (dim0 data) tau embedding.
              t' + k * nat tau < length (vals data) \<and>
              copies X ! k ! t' = vals data ! (t' + k * nat tau))"
proof -
  let ?K = "kept data (dim0 data) tau embedding"
  let ?S = "arange_times embedding tau"
  define X where "X = \<lparr>emb_coord = ?S, edim0 = dim0 data, edim1 = dim1 data,
         ecoord0 = take ?K (coord0 data), ecoord1 = coord1 data,
         copies = map (\<lambda>i. take ?K (drop (nat i) (vals data))) ?S\<rparr>"
  have td: "dim0 data \<in> set (dims data)" by (simp add: dims_def)
  have len: "length (vals data) = sizes data (dim0 data)"
    "length (coord0 data) = sizes data (dim0 data)"
    using wf by (simp_all add: wf_array_def sizes_def)
  have 1: "prepare_data_for_eeof data tau embedding (dim0 data) = Inr X"
    using prepare_ok[OF e t td c wf] by (simp add: X_def)
  have 2: "length (emb_coord X) = nat embedding" by (simp add: X_def arange_times_def)
  have 3: "length (ecoord0 X) = ?K" using len by (simp add: X_def kept_def)
  have 4: "ecoord1 X = coord1 data" by (simp add: X_def)
  have 5: "t' + k * nat tau < length (vals data) \<and>
           copies X ! k ! t' = vals data ! (t' + k * nat tau)"
    if "k < nat embedding" "t' < ?K" for k t'
  proof -
    have b: "k * nat tau + t' < length (vals data)"
      using kept_bound[OF e t that] len by simp
    then show ?thesis
      using that t arange_times_nth[OF that(1) t]
      by (simp add: X_def arange_times_def add.commute)
  qed
  from 1 2 3 4 5 show ?thesis by blast
qed

text \<open>
  Claim C6.  For an anomaly series on (time, lat) whose cells are all zero, and valid
  \<open>tau\<close> and \<open>embedding\<close>, the embedded array is built and, for every set of
  eigenvectors, every raw score (the products summed over the embedding and the latitudes,
  before the division by the standard deviations) is zero.
\<close>

theorem zero_series_zero_scores:
  assumes e: "1 \<le> embedding" and t: "0 \<le> tau"
    and c: "n_samples_cut tau embedding < int (sizes data (dim0 data))" and wf: "wf_array data"
    and zero: "list_all (list_all (\<lambda>c. c = Some 0)) (vals data)"
  shows "\<exists>X. prepare_data_for_eeof data tau embedding (dim0 data) = Inr X \<and>
           (\<forall>eeofs. length (raw_scores eeofs X) = length (e_mode eeofs) \<and>
              list_all (\<lambda>row. length row = kept data (dim0 data) tau embedding \<and>
                               list_all (\<lambda>c. c = Some 0) row) (raw_scores eeofs X))"
proof -
  let ?K = "kept data (dim0 data) tau embedding"
  from embedded_cells[OF e t c wf] obtain X where
    X: "prepare_data_for_eeof data tau embedding (dim0 data) = Inr X"
    and le: "length (emb_coord X) = nat embedding"
    and lt: "length (ecoord0 X) = ?K"
    and c1: "ecoord1 X = coord1 data"
    and cells: "\<And>k t'. k < nat embedding \<Longrightarrow> t' < ?K \<Longrightarrow>
              t' + k * nat tau < length (vals data) \<and>
              copies X ! k ! t' = vals data ! (t' + k * nat tau)"
    by blast
  have rows: "\<And>r. r \<in> set (vals data) \<Longrightarrow> length r = length (coord1 data)"
    using wf by (simp add: wf_array_def list_all_iff)
  have z: "copies X ! index_of ev (emb_coord X) ! t' ! index_of l (ecoord1 X) = Some 0"
    if "ev \<in> set (emb_coord X)" "t' < ?K" "l \<in> set (ecoord1 X)" for ev t' l
  proof -
    have k: "index_of ev (emb_coord X) < nat embedding"
      using index_of_less[OF that(1)] le by simp
    have j: "index_of l (ecoord1 X) < length (coord1 data)"
      using index_of_less[OF that(3)] c1 by simp
    let ?r = "vals data ! (t' + index_of ev (emb_coord X) * nat tau)"
    have r: "?r \<in> set (vals data)" "copies X ! index_of ev (emb_coord X) ! t' = ?r"
      using cells[OF k that(2)] by simp_all
    then have "?r ! index_of l (ecoord1 X) \<in> set ?r"
      using rows j by simp
    with r(1) zero have "?r ! index_of l (ecoord1 X) = Some 0"
      by (auto simp: list_all_iff)
    with r(2) show ?thesis by simp
  qed
  have "length (raw_scores eeofs X) = length (e_mode eeofs) \<and>
        list_all (\<lambda>row. length row = ?K \<and> list_all (\<lambda>c. c = Some 0) row) (raw_scores eeofs X)"
    for eeofs
  proof -
    have "nansum (concat (map (\<lambda>ev. map (\<lambda>l.
              mul_cell (e_vals eeofs ! m ! index_of ev (e_emb eeofs) ! index_of l (e_lat eeofs))
                       (copies X ! index_of ev (emb_coord X) ! t' ! index_of l (ecoord1 X)))
              (filter (\<lambda>l. l \<in> set (ecoord1 X)) (e_lat eeofs)))
            (filter (\<lambda>ev. ev \<in> set (emb_coord X)) (e_emb eeofs)))) = Some 0"
      if "t' < ?K" for m t'
    proof (rule nansum_zero, rule ballI)
      fix cl
      assume "cl \<in> set (concat (map (\<lambda>ev. map (\<lambda>l.
              mul_cell (e_vals eeofs ! m ! index_of ev (e_emb eeofs) ! index_of l (e_lat eeofs))
                       (copies X ! index_of ev (emb_coord X) ! t' ! index_of l (ecoord1 X)))
              (filter (\<lambda>l. l \<in> set (ecoord1 X)) (e_lat eeofs)))
            (filter (\<lambda>ev. ev \<in> set (emb_coord X)) (e_emb eeofs))))"
      then obtain ev l where "ev \<in> set (emb_coord X)" "l \<in> set (ecoord1 X)"
        and cl: "cl = mul_cell (e_vals eeofs ! m ! index_of ev (e_emb eeofs) ! index_of l (e_lat eeofs))
                       (copies X ! index_of ev (emb_coord X) ! t' ! index_of l (ecoord1 X))"
        by auto
      then have "cl = mul_cell (e_vals eeofs ! m ! index_of ev (e_emb eeofs) ! index_of l (e_lat eeofs))
                       (Some 0)"
        using z[OF _ that] by simp
      then show "cl = None \<or> cl = Some 0" using mul_cell_zero by simp
    qed
    then show ?thesis
      using lt by (simp add: raw_scores_def Let_def list_all_iff)
  qed
  with X show ?thesis by blast
qed

theorem zero_series_zero_scores_witness:
  "\<exists>X. prepare_data_for_eeof zero_anomaly 1 2 (dim0 zero_anomaly) = Inr X \<and>
        (\<forall>eeofs. length (raw_scores eeofs X) = length (e_mode eeofs) \<and>
           list_all (\<lambda>row. length row = kept zero_anomaly (dim0 zero_anomaly) 1 2 \<and>
                            list_all (\<lambda>c. c = Some 0) row) (raw_scores eeofs X))"
  by (rule zero_series_zero_scores)
     (simp_all add: zero_anomaly_def n_samples_cut_def sizes_def wf_array_def)



section \<open>Properties of the ensemble mean\<close>

lemma sum_members_all:
  assumes "map (get_var ds) ks = map Inr xss"
  shows "sum_members ds tot ks = Inr (foldl add_total tot xss)"
  using assms
proof (induction ks arbitrary: tot xss)
  case Nil
  then show ?case by simp
next
  case (Cons k ks)
  then obtain x xs where "xss = x # xs" "get_var ds k = Inr x" "map (get_var ds) ks = map Inr xs"
    by (cases xss) auto
  with Cons.IH show ?case by simp
qed

lemma foldl_add_array:
  assumes "length a = T" "\<forall>xs \<in> set xss. length xs = T"
  shows "\<exists>b. foldl add_total (Array a) xss = Array b \<and> length b = T \<and>
           (\<forall>t < T. b ! t =
              (case a ! t of
                 None \<Rightarrow> None
               | Some v \<Rightarrow> if \<forall>xs \<in> set xss. xs ! t \<noteq> None
                           then Some (v + sum_list (map (\<lambda>xs. the (xs ! t)) xss)) else None))"
  using assms
proof (induction xss arbitrary: a)
  case Nil
  then show ?case by (auto split: option.splits)
next
  case (Cons x xss)
  let ?a' = "map (\<lambda>(x, y). add_cell x y) (zip a x)"
  have la: "length ?a' = T" using Cons.prems by simp
  from Cons.IH[OF la] Cons.prems(2)
  obtain b where b: "foldl add_total (Array ?a') xss = Array b" "length b = T"
    "\<forall>t < T. b ! t =
        (case ?a' ! t of
           None \<Rightarrow> None
         | Some v \<Rightarrow> if \<forall>xs \<in> set xss. xs ! t \<noteq> None
                     then Some (v + sum_list (map (\<lambda>xs. the (xs ! t)) xss)) else None)"
    by auto
  have "b ! t =
      (case a ! t of
         None \<Rightarrow> None
       | Some v \<Rightarrow> if \<forall>xs \<in> set (x # xss). xs ! t \<noteq> None
                   then Some (v + sum_list (map (\<lambda>xs. the (xs ! t)) (x # xss))) else None)"
    if "t < T" for t
  proof -
    have "?a' ! t = add_cell (a ! t) (x ! t)" using that Cons.prems by simp
    then show ?thesis
      using b(3) that
      by (auto simp: add_cell_def add.assoc split: option.splits)
  qed
  with b(1,2) show ?case by simp
qed

lemma length_member_keys: "length (member_keys mode inis mems) = length inis * length mems"
  unfolding member_keys_def by (induction inis) simp_all

text \<open>
  Claim C5, as amended.  The ensemble mean is the sum over all (initialization, member)
  pairs, position by position on the time axis of the data set, divided by the number of
  pairs: where every member has a value the mean is the unweighted average of the
  values, and where some member has none (NaN) the mean is NaN.
\<close>

theorem ensemble_mean:
  assumes found: "map (get_var ds) (member_keys mode inis mems) = map Inr xss"
    and ne: "xss \<noteq> []" and len: "\<forall>xs \<in> set xss. length xs = T"
  shows "\<exists>avg. miso_average mode ds inis mems = Inr (Array avg) \<and> length avg = T \<and>
           (\<forall>t < T. avg ! t =
              (if \<forall>xs \<in> set xss. xs ! t \<noteq> None
               then Some (sum_list (map (\<lambda>xs. the (xs ! t)) xss) / real (length xss))
               else None))"
proof -
  from ne obtain x rest where xss: "xss = x # rest" by (cases xss) auto
  let ?a = "map (add_cell (Some 0)) x"
  have n: "length inis * length mems = length xss"
    using arg_cong[OF found, of length] by (simp add: length_member_keys)
  have n0: "real (length xss) \<noteq> 0" using ne by simp
  have la: "length ?a = T" using len xss by simp
  from foldl_add_array[OF la, of rest] len xss
  obtain b where b: "foldl add_total (Array ?a) rest = Array b" "length b = T"
    "\<forall>t < T. b ! t =
        (case ?a ! t of
           None \<Rightarrow> None
         | Some v \<Rightarrow> if \<forall>xs \<in> set rest. xs ! t \<noteq> None
                     then Some (v + sum_list (map (\<lambda>xs. the (xs ! t)) rest)) else None)"
    by auto
  have tot: "sum_members ds (Scalar 0) (member_keys mode inis mems) = Inr (Array b)"
    using sum_members_all[OF found, of "Scalar 0"] b(1) xss by simp
  let ?avg = "map (\<lambda>c. div_cell c (Some (real (length xss)))) b"
  have 1: "miso_average mode ds inis mems = Inr (Array ?avg)"
    using tot n by (simp add: miso_average_def divide_total_def)
  have 2: "length ?avg = T" using b(2) by simp
  have 3: "?avg ! t =
      (if \<forall>xs \<in> set xss. xs ! t \<noteq> None
       then Some (sum_list (map (\<lambda>xs. the (xs ! t)) xss) / real (length xss)) else None)"
    if "t < T" for t
  proof -
    have xt: "?a ! t = add_cell (Some 0) (x ! t)" using that len xss by simp
    have "?avg ! t = div_cell (b ! t) (Some (real (length xss)))"
      using that b(2) by simp
    then show ?thesis
      using b(3) that xt n0 unfolding xss
      by (auto simp: add_cell_def div_cell_def split: option.splits)
  qed
  from 1 2 3 show ?thesis by blast
qed


theorem ensemble_mean_witness:
  "miso_average ''MISO1'' two_members [''20240612T0000Z''] [''mem1'', ''mem2'']
   = Inr (Array [Some 2, Some 3, Some 4])"
proof -
  have found: "map (get_var two_members)
                 (member_keys ''MISO1'' [''20240612T0000Z''] [''mem1'', ''mem2''])
               = map Inr [[Some 1, Some 2, Some 3], [Some 3, Some 4, Some 5]]"
    by (simp add: member_keys_def var_key_def get_var_def two_members_def)
  from ensemble_mean[OF found, of 3]
  obtain avg where avg: "miso_average ''MISO1'' two_members [''20240612T0000Z''] [''mem1'', ''mem2'']
      = Inr (Array avg)" "length avg = 3"
    and pt: "\<forall>t < 3. avg ! t =
        (if \<forall>xs \<in> set [[Some 1, Some 2, Some 3], [Some 3, Some 4, Some (5::real)]]. xs ! t \<noteq> None
         then Some (sum_list (map (\<lambda>xs. the (xs ! t))
                       [[Some 1, Some 2, Some 3], [Some 3, Some 4, Some 5]]) /
                    real (length [[Some 1, Some 2, Some 3], [Some 3, Some 4, Some (5::real)]]))
         else None)"
    by auto
  have "avg ! 0 = Some 2" "avg ! 1 = Some 3" "avg ! 2 = Some 4"
    using pt by simp_all
  with avg(2) have "avg = [Some 2, Some 3, Some 4]"
    by (auto simp: list_eq_iff_nth_eq less_Suc_eq numeral_3_eq_3 numeral_2_eq_2)
  with avg(1) show ?thesis by simp
qed

text \<open>
  Claim C5 as stated fails where a member has no value for a date.  The series of the
  second member has no value for 14 June; the data set built from the two series holds
  NaN there, and the mean at that date is NaN, not the value 2 of the first member.
\<close>

theorem missing_date_counterexample:
  "miso_average ''MISO1''
     (combine
       [(''MISO1_20240612T0000Z_mem1'',
         \<lparr>sname = ''MISO1_20240612_mem1'',
          stime = [\<lparr>year = 2024, month = 6, day = 13, hour = 0, minute = 0\<rparr>,
                   \<lparr>year = 2024, month = 6, day = 14, hour = 0, minute = 0\<rparr>,
                   \<lparr>year = 2024, month = 6, day = 15, hour = 0, minute = 0\<rparr>],
          svalues = [Some 1, Some 2, Some 3]\<rparr>),
        (''MISO1_20240612T0000Z_mem2'',
         \<lparr>sname = ''MISO1_20240612_mem2'',
          stime = [\<lparr>year = 2024, month = 6, day = 13, hour = 0, minute = 0\<rparr>,
                   \<lparr>year = 2024, month = 6, day = 15, hour = 0, minute = 0\<rparr>],
          svalues = [Some 3, Some 5]\<rparr>)])
     [''20240612T0000Z''] [''mem1'', ''mem2'']
   = Inr (Array [Some 2, None, Some 4])"
proof -
  have cmb: "combine
       [(''MISO1_20240612T0000Z_mem1'',
         \<lparr>sname = ''MISO1_20240612_mem1'',
          stime = [\<lparr>year = 2024, month = 6, day = 13, hour = 0, minute = 0\<rparr>,
                   \<lparr>year = 2024, month = 6, day = 14, hour = 0, minute = 0\<rparr>,
                   \<lparr>year = 2024, month = 6, day = 15, hour = 0, minute = 0\<rparr>],
          svalues = [Some 1, Some 2, Some 3]\<rparr>),
        (''MISO1_20240612T0000Z_mem2'',
         \<lparr>sname = ''MISO1_20240612_mem2'',
          stime = [\<lparr>year = 2024, month = 6, day = 13, hour = 0, minute = 0\<rparr>,
                   \<lparr>year = 2024, month = 6, day = 15, hour = 0, minute = 0\<rparr>],
          svalues = [Some 3, Some 5]\<rparr>)]
   = \<lparr>d_time = [\<lparr>year = 2024, month = 6, day = 13, hour = 0, minute = 0\<rparr>,
                \<lparr>year = 2024, month = 6, day = 14, hour = 0, minute = 0\<rparr>,
                \<lparr>year = 2024, month = 6, day = 15, hour = 0, minute = 0\<rparr>],
       d_vars = [(''MISO1_20240612T0000Z_mem1'', [Some 1, Some 2, Some 3]),
                 (''MISO1_20240612T0000Z_mem2'', [Some 3, None, Some 5])]\<rparr>"
    by code_simp
  show ?thesis
    unfolding cmb
    by (simp add: miso_average_def member_keys_def var_key_def get_var_def divide_total_def
        add_cell_def div_cell_def)
qed

end
